theory Spec2Isabelle
  imports Main
begin

section \<open>JavaScript strings, values and plain objects\<close>

text \<open>
  Strings are lists of 8-bit characters standing for ASCII text; \<open>toLowerCase\<close> maps the
  letters A to Z and leaves every other character as it is. Numbers are exact integers
  (a double is exact below \<open>2^53\<close>), with \<open>None\<close> for NaN where a conversion can fail.
\<close>

definition lower_char :: "char \<Rightarrow> char" where
  "lower_char c =
     (case map_of (zip ''ABCDEFGHIJKLMNOPQRSTUVWXYZ'' ''abcdefghijklmnopqrstuvwxyz'') c of
        Some l \<Rightarrow> l
      | None \<Rightarrow> c)"

definition toLowerCase :: "string \<Rightarrow> string" where
  "toLowerCase s = map lower_char s"

text \<open>\<open>a || b\<close> on a string that may be null, undefined or empty.\<close>

fun or_default :: "string option \<Rightarrow> string \<Rightarrow> string" where
  "or_default None d = d"
| "or_default (Some s) d = (if s = [] then d else s)"

text \<open>
  The values the functions below hand back: a string, a number, or a member of
  \<open>Object.prototype\<close> (a function such as \<open>Object\<close> itself, or the prototype object),
  which is neither.
\<close>

datatype js_value = Str string | Num int | Builtin string

text \<open>\<open>Rejected\<close> is the error of a promise that a collaborator rejects.\<close>

datatype js_error = TypeError | ReferenceError | Rejected

text \<open>
  \<open>Unmodelled\<close> marks the two places where a run leaves the code of this repository for
  the inside of the JavaScript runtime: the properties of a built-in object reached through
  the prototype chain, and a regular expression outside the fragment described at
  \<open>prefix_literal\<close>. No statement below depends on what happens there.
\<close>

datatype 'a outcome = Returns 'a | Throws js_error | Unmodelled

text \<open>
  A configuration table or an object literal is an association list in insertion order.
  Reading \<open>obj[k]\<close> finds the object's own entry, or else the member of
  \<open>Object.prototype\<close> of that name, which every plain object inherits (all of them are
  truthy: eleven functions and, for \<open>__proto__\<close>, the prototype object), or else
  \<open>undefined\<close>.
\<close>

definition object_prototype_keys :: "string list" where
  "object_prototype_keys =
     [''constructor'', ''__proto__'', ''hasOwnProperty'', ''isPrototypeOf'',
      ''propertyIsEnumerable'', ''toLocaleString'', ''toString'', ''valueOf'',
      ''__defineGetter__'', ''__defineSetter__'', ''__lookupGetter__'', ''__lookupSetter__'']"

datatype 'a property = Own 'a | Inherited string | Undefined

definition js_get :: "(string \<times> 'a) list \<Rightarrow> string \<Rightarrow> 'a property" where
  "js_get obj k =
     (case map_of obj k of
        Some v \<Rightarrow> Own v
      | None \<Rightarrow> if k \<in> set object_prototype_keys then Inherited k else Undefined)"

text \<open>The value of a string-valued property when it is truthy, as \<open>if (obj[k])\<close> tests it.\<close>

fun truthy_value :: "string property \<Rightarrow> js_value option" where
  "truthy_value (Own v) = (if v = [] then None else Some (Str v))"
| "truthy_value (Inherited k) = Some (Builtin k)"
| "truthy_value Undefined = None"

section \<open>StateMapper\<close>

text \<open>
  The configuration, as \<open>getDefaultConfig\<close> shapes it and a JSON file of the same shape
  loads it. Only the parts read by \<open>getAdoState\<close>, \<open>getGlobalFallback\<close> and
  \<open>getWorkItemType\<close> are kept.
\<close>

type_synonym state_map = "(string \<times> string) list"

type_synonym status_mappings = "(string \<times> state_map) list"

record project_config =
  statusMappings :: "(string \<times> status_mappings) list"

record config =
  defaultProject :: string
  unmappedStatusFallback :: "(string \<times> string) list"
  workItemTypeMapping :: "(string \<times> string) list"
  projects :: "(string \<times> project_config) list"

definition closed_map :: state_map where
  "closed_map = [(''*'', ''Done'')]"

definition epic_mappings :: status_mappings where
  "epic_mappings =
     [(''open'',
        [(''No status'', ''New''), (''Product Backlog'', ''New''), (''Sprint Backlog'', ''New''),
         (''Ready'', ''New''), (''In Progress'', ''In Progress''),
         (''In PR review'', ''In Progress''), (''In Beta'', ''In Progress''),
         (''In Main'', ''In Progress''), (''In Production'', ''Done'')]),
      (''closed'', closed_map)]"

definition pbi_mappings :: status_mappings where
  "pbi_mappings =
     [(''open'',
        [(''No status'', ''New''), (''Product Backlog'', ''New''),
         (''Sprint Backlog'', ''Approved''), (''Ready'', ''Approved''),
         (''In Progress'', ''Committed''), (''In PR review'', ''Committed''),
         (''In Beta'', ''Committed''), (''In Main'', ''Committed''),
         (''In Production'', ''Done'')]),
      (''closed'', closed_map)]"

definition bug_mappings :: status_mappings where
  "bug_mappings =
     [(''open'',
        [(''No status'', ''New''), (''Product Backlog'', ''New''),
         (''Sprint Backlog'', ''Approved''), (''Ready'', ''Approved''),
         (''In Progress'', ''Committed''), (''In PR review'', ''Committed''),
         (''In Beta'', ''Committed''), (''In Main'', ''Committed''),
         (''In Production'', ''Done'')]),
      (''closed'', closed_map)]"

definition task_mappings :: status_mappings where
  "task_mappings =
     [(''open'',
        [(''No status'', ''To Do''), (''Product Backlog'', ''To Do''),
         (''Sprint Backlog'', ''To Do''), (''Ready'', ''To Do''),
         (''In Progress'', ''In Progress''), (''In PR review'', ''In Progress''),
         (''In Beta'', ''In Progress''), (''In Main'', ''In Progress''),
         (''In Production'', ''Done'')]),
      (''closed'', closed_map)]"

definition siwar :: project_config where
  "siwar =
     \<lparr>statusMappings =
        [(''Epic'', epic_mappings), (''Product Backlog Item'', pbi_mappings),
         (''Bug'', bug_mappings), (''Task'', task_mappings)]\<rparr>"

definition getDefaultConfig :: config where
  "getDefaultConfig =
     \<lparr>defaultProject = ''siwar'',
      unmappedStatusFallback = [(''open'', ''New''), (''closed'', ''Done'')],
      workItemTypeMapping =
        [(''[Epic]'', ''Epic''), (''[Story]'', ''Product Backlog Item''),
         (''[Request]'', ''Product Backlog Item''),
         (''[IMPROVEMENT]'', ''Product Backlog Item''), (''[Bug]'', ''Bug''),
         (''default'', ''Product Backlog Item'')],
      projects = [(''siwar'', siwar)]\<rparr>"

text \<open>\<open>fallbacks[issueState] || (issueState === 'closed' ? 'Done' : 'New')\<close>\<close>

definition getGlobalFallback :: "config \<Rightarrow> string \<Rightarrow> js_value" where
  "getGlobalFallback cfg issueState =
     (case truthy_value (js_get (unmappedStatusFallback cfg) issueState) of
        Some v \<Rightarrow> v
      | None \<Rightarrow> Str (if issueState = ''closed'' then ''Done'' else ''New''))"

text \<open>
  The lookups of \<open>getAdoState\<close> once a project entry and a status are at hand. An
  inherited \<open>statusMappings[workItemType]\<close> or \<open>statusMappings[issueState]\<close> is a
  built-in object, whose own properties decide the rest.
\<close>

definition project_state ::
  "config \<Rightarrow> project_config \<Rightarrow> string \<Rightarrow> string \<Rightarrow> string \<Rightarrow> js_value outcome" where
  "project_state cfg project workItemType issueState projectStatus =
     (case js_get (statusMappings project) workItemType of
        Undefined \<Rightarrow> Returns (getGlobalFallback cfg issueState)
      | Inherited k \<Rightarrow> Unmodelled
      | Own mappings \<Rightarrow>
          (case js_get mappings issueState of
             Undefined \<Rightarrow> Returns (getGlobalFallback cfg issueState)
           | Inherited k \<Rightarrow> Unmodelled
           | Own stateMap \<Rightarrow>
               (case truthy_value (js_get stateMap ''*'') of
                  Some v \<Rightarrow> Returns v
                | None \<Rightarrow>
                    (case truthy_value (js_get stateMap projectStatus) of
                       Some v \<Rightarrow> Returns v
                     | None \<Rightarrow>
                         (case truthy_value (js_get stateMap ''No status'') of
                            Some v \<Rightarrow> Returns v
                          | None \<Rightarrow>
                              (case truthy_value (js_get stateMap ''No Status'') of
                                 Some v \<Rightarrow> Returns v
                               | None \<Rightarrow> Returns (getGlobalFallback cfg issueState)))))))"

text \<open>
  \<open>getAdoState(workItemType, issueState, projectName = null, projectStatus = null)\<close>.
  When \<open>this.config.projects[projectName]\<close> is an inherited member, it is truthy, its
  \<open>statusMappings\<close> is \<open>undefined\<close>, and indexing that throws.
\<close>

definition getAdoState ::
  "config \<Rightarrow> string \<Rightarrow> string option \<Rightarrow> string option \<Rightarrow> string option
     \<Rightarrow> js_value outcome" where
  "getAdoState cfg workItemType issueState0 projectName0 projectStatus0 =
     (let issueState = toLowerCase (or_default issueState0 ''open'');
          projectName = toLowerCase (or_default projectName0 (defaultProject cfg))
      in case projectStatus0 of
           None \<Rightarrow> Returns (getGlobalFallback cfg issueState)
         | Some projectStatus \<Rightarrow>
             if projectStatus = [] then Returns (getGlobalFallback cfg issueState)
             else (case js_get (projects cfg) projectName of
                     Undefined \<Rightarrow> Returns (getGlobalFallback cfg issueState)
                   | Inherited k \<Rightarrow> Throws TypeError
                   | Own project \<Rightarrow>
                       project_state cfg project workItemType issueState projectStatus))"

text \<open>
  A configuration that differs from the default one in its global fallback for closed
  issues only.
\<close>

definition closed_fallback_config :: config where
  "closed_fallback_config =
     getDefaultConfig\<lparr>unmappedStatusFallback := [(''open'', ''New''), (''closed'', ''Closed'')]\<rparr>"

section \<open>Regular expressions of the sprint-date grammars\<close>

text \<open>
  The three patterns of \<open>parseSprintDates\<close> are sequences of one character class under a
  quantifier, some of them capture groups. \<open>\w\<close> is a letter, a digit or the underscore,
  \<open>\d\<close> a digit, \<open>\s\<close> white space (among 8-bit characters: space, tab, line feed,
  vertical tab, form feed, carriage return and the no-break space). The \<open>i\<close> flag of the
  first pattern changes nothing, for its only literal is the hyphen.
\<close>

datatype char_class = Word | Digit | Space | Lit char

fun in_class :: "char_class \<Rightarrow> char \<Rightarrow> bool" where
  "in_class Word c =
     (c \<in> set ''abcdefghijklmnopqrstuvwxyzABCDEFGHIJKLMNOPQRSTUVWXYZ0123456789_'')"
| "in_class Digit c = (c \<in> set ''0123456789'')"
| "in_class Space c =
     (c \<in> set [CHR '' '', CHR 0x09, CHR 0x0A, CHR 0x0B, CHR 0x0C, CHR 0x0D, CHR 0xA0])"
| "in_class (Lit l) c = (c = l)"

datatype quantifier = Plus | Star | Exactly nat

text \<open>\<open>Atom captured class quantifier\<close>\<close>

datatype atom = Atom bool char_class quantifier

fun min_count :: "quantifier \<Rightarrow> nat" where
  "min_count Plus = 1"
| "min_count Star = 0"
| "min_count (Exactly n) = n"

fun max_count :: "quantifier \<Rightarrow> nat \<Rightarrow> nat" where
  "max_count (Exactly n) run = min n run"
| "max_count q run = run"

text \<open>
  A greedy quantifier takes the longest run first and gives characters back one at a time
  until the rest of the pattern (\<open>k\<close>) matches; the first success is the match.
\<close>

fun backtrack ::
  "(string \<Rightarrow> string list option) \<Rightarrow> bool \<Rightarrow> string \<Rightarrow> nat \<Rightarrow> nat
     \<Rightarrow> string list option" where
  "backtrack k cap s lo n =
     (if n < lo then None
      else case k (drop n s) of
             Some gs \<Rightarrow> Some (if cap then take n s # gs else gs)
           | None \<Rightarrow> (case n of 0 \<Rightarrow> None | Suc m \<Rightarrow> backtrack k cap s lo m))"

primrec match_here :: "atom list \<Rightarrow> string \<Rightarrow> string list option" where
  "match_here [] s = Some []"
| "match_here (a # as) s =
     (case a of Atom cap cls q \<Rightarrow>
        backtrack (match_here as) cap s (min_count q)
          (max_count q (length (takeWhile (in_class cls) s))))"

text \<open>
  \<open>str.match(pattern)\<close> without the \<open>g\<close> flag: the leftmost match, as the list of its
  groups \<open>match[1], match[2], ...\<close>; \<open>match.length\<close> is one more than their number.
\<close>

fun regex_match :: "atom list \<Rightarrow> string \<Rightarrow> string list option" where
  "regex_match p [] = match_here p []"
| "regex_match p (c # s) =
     (case match_here p (c # s) of Some gs \<Rightarrow> Some gs | None \<Rightarrow> regex_match p s)"

text \<open>\<open>/(\w+)\s+(\d+)\s*-\s*(\w+)\s+(\d+)/i\<close>\<close>

definition month_name_pattern :: "atom list" where
  "month_name_pattern =
     [Atom True Word Plus, Atom False Space Plus, Atom True Digit Plus, Atom False Space Star,
      Atom False (Lit CHR ''-'') (Exactly 1), Atom False Space Star,
      Atom True Word Plus, Atom False Space Plus, Atom True Digit Plus]"

text \<open>\<open>/(\d+)\/(\d+)\s*-\s*(\d+)\/(\d+)/\<close>\<close>

definition numeric_pattern :: "atom list" where
  "numeric_pattern =
     [Atom True Digit Plus, Atom False (Lit CHR ''/'') (Exactly 1), Atom True Digit Plus,
      Atom False Space Star, Atom False (Lit CHR ''-'') (Exactly 1), Atom False Space Star,
      Atom True Digit Plus, Atom False (Lit CHR ''/'') (Exactly 1), Atom True Digit Plus]"

text \<open>\<open>/(\d{4})-(\d{2})-(\d{2})\s+to\s+(\d{4})-(\d{2})-(\d{2})/\<close>\<close>

definition iso_pattern :: "atom list" where
  "iso_pattern =
     [Atom True Digit (Exactly 4), Atom False (Lit CHR ''-'') (Exactly 1),
      Atom True Digit (Exactly 2), Atom False (Lit CHR ''-'') (Exactly 1),
      Atom True Digit (Exactly 2), Atom False Space Plus,
      Atom False (Lit CHR ''t'') (Exactly 1), Atom False (Lit CHR ''o'') (Exactly 1),
      Atom False Space Plus,
      Atom True Digit (Exactly 4), Atom False (Lit CHR ''-'') (Exactly 1),
      Atom True Digit (Exactly 2), Atom False (Lit CHR ''-'') (Exactly 1),
      Atom True Digit (Exactly 2)]"

definition patterns :: "atom list list" where
  "patterns = [month_name_pattern, numeric_pattern, iso_pattern]"

section \<open>Numbers and dates\<close>

definition digit_value :: "char \<Rightarrow> nat option" where
  "digit_value = map_of (zip ''0123456789'' [0, 1, 2, 3, 4, 5, 6, 7, 8, 9])"

definition hex_value :: "char \<Rightarrow> nat option" where
  "hex_value =
     map_of (zip ''0123456789abcdefABCDEF''
       [0, 1, 2, 3, 4, 5, 6, 7, 8, 9, 10, 11, 12, 13, 14, 15, 10, 11, 12, 13, 14, 15])"

fun radix_value :: "nat \<Rightarrow> (char \<Rightarrow> nat option) \<Rightarrow> nat \<Rightarrow> string \<Rightarrow> nat" where
  "radix_value r dv acc [] = acc"
| "radix_value r dv acc (c # cs) =
     radix_value r dv (acc * r + (case dv c of Some d \<Rightarrow> d | None \<Rightarrow> 0)) cs"

text \<open>The longest prefix of digits of the radix, read as a number; NaN when it is empty.\<close>

definition leading_number :: "nat \<Rightarrow> (char \<Rightarrow> nat option) \<Rightarrow> string \<Rightarrow> int option" where
  "leading_number r dv s =
     (let ds = takeWhile (\<lambda>c. dv c \<noteq> None) s
      in if ds = [] then None else Some (int (radix_value r dv 0 ds)))"

text \<open>
  \<open>parseInt\<close>, \<open>isNaN\<close> and \<open>Number\<close> are applied to capture groups only, which are
  non-empty strings of word characters: no white space to trim and no sign to read.
  \<open>parseInt\<close> reads hexadecimal after \<open>0x\<close> and decimal otherwise.
\<close>

definition parseInt :: "string \<Rightarrow> int option" where
  "parseInt s =
     (case s of
        c # x # rest \<Rightarrow>
          if c = CHR ''0'' \<and> (x = CHR ''x'' \<or> x = CHR ''X'')
          then leading_number 16 hex_value rest
          else leading_number 10 digit_value s
      | _ \<Rightarrow> leading_number 10 digit_value s)"

definition all_of :: "string \<Rightarrow> string \<Rightarrow> bool" where
  "all_of cs s = (s \<noteq> [] \<and> list_all (\<lambda>c. c \<in> set cs) s)"

text \<open>
  The strings of word characters that \<open>Number\<close> reads as a number: decimal digits with an
  optional exponent, \<open>Infinity\<close>, and the prefixed hexadecimal, binary and octal literals.
\<close>

definition numeric_literal :: "string \<Rightarrow> bool" where
  "numeric_literal s =
     (let ds = takeWhile (in_class Digit) s; rest = dropWhile (in_class Digit) s
      in (ds \<noteq> [] \<and>
            (rest = [] \<or>
             (case rest of
                e # ex \<Rightarrow> (e = CHR ''e'' \<or> e = CHR ''E'') \<and> all_of ''0123456789'' ex
              | [] \<Rightarrow> False)))
         \<or> s = ''Infinity''
         \<or> (case s of
               c # x # rest \<Rightarrow>
                 c = CHR ''0'' \<and>
                 ((x = CHR ''x'' \<or> x = CHR ''X'') \<and> all_of ''0123456789abcdefABCDEF'' rest
                  \<or> (x = CHR ''b'' \<or> x = CHR ''B'') \<and> all_of ''01'' rest
                  \<or> (x = CHR ''o'' \<or> x = CHR ''O'') \<and> all_of ''01234567'' rest)
             | _ \<Rightarrow> False))"

definition isNaN :: "string \<Rightarrow> bool" where
  "isNaN s = (\<not> numeric_literal s)"

text \<open>\<open>Number\<close> on a string of decimal digits (the groups of \<open>\d{4}\<close> and \<open>\d{2}\<close>).\<close>

definition decimal_number :: "string \<Rightarrow> int option" where
  "decimal_number s =
     (if all_of ''0123456789'' s then Some (int (radix_value 10 digit_value 0 s)) else None)"

text \<open>\<open>Number\<close> on what \<open>parseMonth\<close> returns: a function or an object converts to NaN.\<close>

fun toNumber :: "js_value \<Rightarrow> int option" where
  "toNumber (Num n) = Some n"
| "toNumber (Str s) = decimal_number s"
| "toNumber (Builtin k) = None"

text \<open>
  A \<open>Date\<close> built from year, month index and day is a local midnight: it is kept as its
  calendar day, counted in days from 1970-01-01, and the time zone plays no part.
  \<open>days_from_civil\<close> and \<open>civil_from_days\<close> convert between day numbers and the
  proleptic Gregorian calendar (months from 1).
\<close>

datatype js_date = Invalid_Date | Day int

definition days_from_civil :: "int \<Rightarrow> int \<Rightarrow> int \<Rightarrow> int" where
  "days_from_civil y m d =
     (let y' = (if m \<le> 2 then y - 1 else y);
          era = y' div 400;
          yoe = y' - era * 400;
          doy = (153 * (if m > 2 then m - 3 else m + 9) + 2) div 5 + d - 1;
          doe = yoe * 365 + yoe div 4 - yoe div 100 + doy
      in era * 146097 + doe - 719468)"

definition civil_from_days :: "int \<Rightarrow> int \<times> int \<times> int" where
  "civil_from_days z =
     (let z' = z + 719468;
          era = z' div 146097;
          doe = z' - era * 146097;
          yoe = (doe - doe div 1460 + doe div 36524 - doe div 146096) div 365;
          doy = doe - (365 * yoe + yoe div 4 - yoe div 100);
          mp = (5 * doy + 2) div 153;
          d = doy - (153 * mp + 2) div 5 + 1;
          m = (if mp < 10 then mp + 3 else mp - 9)
      in ((if m \<le> 2 then yoe + era * 400 + 1 else yoe + era * 400), m, d))"

text \<open>
  \<open>new Date(year, monthIndex, day)\<close>: NaN in any place gives an invalid date, a year from
  0 to 99 means 1900 to 1999, a month index outside 0..11 and a day outside the month carry
  over, and a date more than 100,000,000 days from the epoch is invalid.
\<close>

definition new_Date :: "int option \<Rightarrow> int option \<Rightarrow> int option \<Rightarrow> js_date" where
  "new_Date year monthIndex day =
     (case (year, monthIndex, day) of
        (Some y, Some m, Some d) \<Rightarrow>
          (let yr = (if 0 \<le> y \<and> y \<le> 99 then 1900 + y else y);
               n = days_from_civil (yr + m div 12) (m mod 12 + 1) 1 + d - 1
           in if \<bar>n\<bar> \<le> 100000000 then Day n else Invalid_Date)
      | _ \<Rightarrow> Invalid_Date)"

text \<open>\<open>setDate(getDate() + days)\<close>\<close>

fun add_days :: "js_date \<Rightarrow> int \<Rightarrow> js_date" where
  "add_days Invalid_Date k = Invalid_Date"
| "add_days (Day n) k = (if \<bar>n + k\<bar> \<le> 100000000 then Day (n + k) else Invalid_Date)"

fun dec :: "nat \<Rightarrow> string" where
  "dec n =
     (if n < 10 then [''0123456789'' ! n]
      else dec (n div 10) @ [''0123456789'' ! (n mod 10)])"

text \<open>\<open>String(n)\<close> and the template \<open>${n}\<close> for an integer.\<close>

definition show_int :: "int \<Rightarrow> string" where
  "show_int i = (if i < 0 then CHR ''-'' # dec (nat (- i)) else dec (nat i))"

definition padStart2 :: "string \<Rightarrow> string" where
  "padStart2 s = replicate (2 - length s) CHR ''0'' @ s"

text \<open>\<open>formatDate\<close>: \<open>YYYY-MM-DD\<close> from \<open>getFullYear\<close>, \<open>getMonth() + 1\<close> and \<open>getDate\<close>.\<close>

definition formatDate :: "js_date \<Rightarrow> string" where
  "formatDate date =
     (case date of
        Invalid_Date \<Rightarrow> ''NaN-NaN-NaN''
      | Day n \<Rightarrow>
          (case civil_from_days n of
             (y, m, d) \<Rightarrow>
               show_int y @ ''-'' @ padStart2 (show_int m) @ ''-'' @ padStart2 (show_int d)))"

section \<open>IterationCreator: sprint dates\<close>

definition months :: "(string \<times> int) list" where
  "months =
     [(''jan'', 0), (''january'', 0), (''feb'', 1), (''february'', 1), (''mar'', 2),
      (''march'', 2), (''apr'', 3), (''april'', 3), (''may'', 4), (''jun'', 5), (''june'', 5),
      (''jul'', 6), (''july'', 6), (''aug'', 7), (''august'', 7), (''sep'', 8),
      (''september'', 8), (''oct'', 9), (''october'', 9), (''nov'', 10), (''november'', 10),
      (''dec'', 11), (''december'', 11)]"

text \<open>\<open>months[monthStr.toLowerCase()] || 0\<close>\<close>

definition parseMonth :: "string \<Rightarrow> js_value" where
  "parseMonth monthStr =
     (case js_get months (toLowerCase monthStr) of
        Own n \<Rightarrow> if n = 0 then Num 0 else Num n
      | Inherited k \<Rightarrow> Builtin k
      | Undefined \<Rightarrow> Num 0)"

record sprint_dates =
  startDate :: js_date
  endDate :: js_date

text \<open>
  \<open>extractDatesFromMatch(match, year)\<close>, \<open>match\<close> given by its groups. Every pattern has
  four groups at least; with fewer the first branch would throw inside the \<open>try\<close> and the
  function would return null.
\<close>

definition extractDatesFromMatch :: "string list \<Rightarrow> int \<Rightarrow> sprint_dates option" where
  "extractDatesFromMatch groups year =
     (case groups of
        g1 # g2 # g3 # g4 # rest \<Rightarrow>
          if isNaN g1 then
            Some \<lparr>startDate = new_Date (Some year) (toNumber (parseMonth g1)) (parseInt g2),
                  endDate = new_Date (Some year) (toNumber (parseMonth g3)) (parseInt g4)\<rparr>
          else if length groups + 1 = 5 then
            Some \<lparr>startDate =
                    new_Date (Some year) (map_option (\<lambda>m. m - 1) (parseInt g1)) (parseInt g2),
                  endDate =
                    new_Date (Some year) (map_option (\<lambda>m. m - 1) (parseInt g3)) (parseInt g4)\<rparr>
          else (case rest of
                  [g5, g6] \<Rightarrow>
                    Some \<lparr>startDate =
                            new_Date (decimal_number g1) (map_option (\<lambda>m. m - 1) (parseInt g2))
                              (decimal_number g3),
                          endDate =
                            new_Date (decimal_number g4) (map_option (\<lambda>m. m - 1) (parseInt g5))
                              (decimal_number g6)\<rparr>
                | _ \<Rightarrow> None)
      | _ \<Rightarrow> None)"

text \<open>The loop over the patterns: the first one that matches decides.\<close>

fun first_match :: "atom list list \<Rightarrow> string \<Rightarrow> string list option" where
  "first_match [] s = None"
| "first_match (p # ps) s =
     (case regex_match p s of Some gs \<Rightarrow> Some gs | None \<Rightarrow> first_match ps s)"

text \<open>\<open>parseSprintDates(sprintName, year)\<close>; the year is the current one when not given.\<close>

definition parseSprintDates :: "string \<Rightarrow> int \<Rightarrow> sprint_dates option" where
  "parseSprintDates sprintName year =
     (case first_match patterns sprintName of
        Some groups \<Rightarrow> extractDatesFromMatch groups year
      | None \<Rightarrow> None)"

section \<open>StateMapper: work item type\<close>

text \<open>
  \<open>new RegExp(`^\\${prefix}`, 'i')\<close> puts one backslash before the prefix, so only its
  first character is escaped. When that character is not a word character the escape makes
  it a literal, and when no later character is special in a pattern the whole prefix is
  matched literally at the start of the title, letters without regard to case. The default
  prefixes (\<open>[Epic]\<close> and so on) are of this kind. Any other prefix is outside the fragment
  modelled here.
\<close>

definition regex_special :: "char list" where
  "regex_special =
     [CHR 0x5C, CHR ''^'', CHR ''$'', CHR ''.'', CHR ''|'', CHR ''?'', CHR ''*'', CHR ''+'',
      CHR ''('', CHR '')'', CHR ''['', CHR ''{'']"

definition prefix_literal :: "string \<Rightarrow> bool" where
  "prefix_literal prefix =
     (case prefix of
        [] \<Rightarrow> False
      | c # cs \<Rightarrow> (if in_class Word c then False else list_all (\<lambda>x. x \<notin> set regex_special) cs))"

text \<open>
  The loop over \<open>Object.entries(typeMapping)\<close>, in insertion order; \<open>None\<close> when it ends
  without a return.
\<close>

fun match_prefixes :: "(string \<times> string) list \<Rightarrow> string \<Rightarrow> js_value outcome option" where
  "match_prefixes [] issueTitle = None"
| "match_prefixes ((prefix, adoType) # rest) issueTitle =
     (if prefix = ''default'' then match_prefixes rest issueTitle
      else if prefix_literal prefix then
        (if take (length prefix) (toLowerCase issueTitle) = toLowerCase prefix
         then Some (Returns (Str adoType))
         else match_prefixes rest issueTitle)
      else Some Unmodelled)"

definition labelMap :: "(string \<times> string) list" where
  "labelMap =
     [(''epic'', ''Epic''), (''bug'', ''Bug''), (''user-story'', ''Product Backlog Item''),
      (''task'', ''Task'')]"

fun match_labels :: "string list \<Rightarrow> js_value option" where
  "match_labels [] = None"
| "match_labels (label # rest) =
     (case truthy_value (js_get labelMap (toLowerCase label)) of
        Some v \<Rightarrow> Some v
      | None \<Rightarrow> match_labels rest)"

definition getWorkItemType :: "config \<Rightarrow> string \<Rightarrow> string list \<Rightarrow> js_value outcome" where
  "getWorkItemType cfg issueTitle labels =
     (case match_prefixes (workItemTypeMapping cfg) issueTitle of
        Some r \<Rightarrow> r
      | None \<Rightarrow>
          (case match_labels labels of
             Some v \<Rightarrow> Returns v
           | None \<Rightarrow>
               (case truthy_value (js_get (workItemTypeMapping cfg) ''default'') of
                  Some v \<Rightarrow> Returns v
                | None \<Rightarrow> Returns (Str ''Product Backlog Item''))))"

section \<open>IterationCreator: the cache and the iteration store\<close>

text \<open>An iteration as the store returns it and as \<open>createIteration\<close> posts it.\<close>

record iteration =
  iter_name :: string
  iter_startDate :: "string option"
  iter_finishDate :: "string option"
  iter_path :: string

datatype request = GetWorkApi | GetTeamIterations | PostTeamIteration iteration

text \<open>
  The store and the network are outside the program. \<open>requests\<close> logs the calls made so
  far; the call made when \<open>n\<close> calls are logged is the \<open>n\<close>-th, and the three functions
  say how the \<open>n\<close>-th call is answered if it is \<open>getWorkApi\<close>, \<open>getTeamIterations\<close> or
  \<open>postTeamIteration\<close>: \<open>False\<close> or \<open>None\<close> when the promise rejects.
\<close>

record world =
  api_up :: "nat \<Rightarrow> bool"
  listing :: "nat \<Rightarrow> iteration list option"
  creation :: "nat \<Rightarrow> iteration option"
  requests :: "request list"

text \<open>
  The fields of an \<open>IterationCreator\<close>: \<open>connection\<close> and \<open>workClient\<close> say whether the
  field is set, \<open>existingIterations\<close> is the \<open>Map\<close> from lowercased names to iterations.
\<close>

record creator =
  ado_project :: string
  connection :: bool
  workClient :: bool
  existingIterations :: "string \<rightharpoonup> iteration"
  cacheLoaded :: bool

definition send :: "request \<Rightarrow> world \<Rightarrow> world" where
  "send r w = w\<lparr>requests := requests w @ [r]\<rparr>"

text \<open>
  \<open>initialize\<close>: \<open>this.connection\<close> is assigned before \<open>getWorkApi()\<close> is awaited, so a
  rejection leaves the connection set and the client null, and the rejection propagates.
\<close>

definition initialize :: "creator \<times> world \<Rightarrow> unit outcome \<times> creator \<times> world" where
  "initialize cw =
     (case cw of (c, w) \<Rightarrow>
        if connection c then (Returns (), c, w)
        else if api_up w (length (requests w))
          then (Returns (), c\<lparr>connection := True, workClient := True\<rparr>, send GetWorkApi w)
          else (Throws Rejected, c\<lparr>connection := True\<rparr>, send GetWorkApi w))"

definition cache_all :: "iteration list \<Rightarrow> (string \<rightharpoonup> iteration) \<Rightarrow> (string \<rightharpoonup> iteration)" where
  "cache_all its m = fold (\<lambda>it m'. m'(toLowerCase (iter_name it) \<mapsto> it)) its m"

text \<open>
  \<open>loadExistingIterations\<close>: \<open>initialize\<close> is awaited outside the \<open>try\<close>; inside it a null
  client (a TypeError) and a rejected listing are caught and leave the cache as it is, not
  loaded.
\<close>

definition loadExistingIterations :: "creator \<times> world \<Rightarrow> unit outcome \<times> creator \<times> world" where
  "loadExistingIterations cw =
     (case cw of (c, w) \<Rightarrow>
        if cacheLoaded c then (Returns (), c, w)
        else (case initialize (c, w) of
                (Returns u, c1, w1) \<Rightarrow>
                  if workClient c1 then
                    (case listing w1 (length (requests w1)) of
                       Some its \<Rightarrow>
                         (Returns (),
                          c1\<lparr>existingIterations := cache_all its (existingIterations c1),
                             cacheLoaded := True\<rparr>,
                          send GetTeamIterations w1)
                     | None \<Rightarrow> (Returns (), c1, send GetTeamIterations w1))
                  else (Returns (), c1, w1)
              | (Throws e, c1, w1) \<Rightarrow> (Throws e, c1, w1)
              | (Unmodelled, c1, w1) \<Rightarrow> (Unmodelled, c1, w1)))"

definition iterationExists :: "string \<Rightarrow> creator \<times> world \<Rightarrow> bool outcome \<times> creator \<times> world" where
  "iterationExists iterationName cw =
     (case loadExistingIterations cw of
        (Returns u, c1, w1) \<Rightarrow>
          (Returns (existingIterations c1 (toLowerCase iterationName) \<noteq> None), c1, w1)
      | (Throws e, c1, w1) \<Rightarrow> (Throws e, c1, w1)
      | (Unmodelled, c1, w1) \<Rightarrow> (Unmodelled, c1, w1))"

definition getIteration ::
  "string \<Rightarrow> creator \<times> world \<Rightarrow> iteration option outcome \<times> creator \<times> world" where
  "getIteration iterationName cw =
     (case loadExistingIterations cw of
        (Returns u, c1, w1) \<Rightarrow> (Returns (existingIterations c1 (toLowerCase iterationName)), c1, w1)
      | (Throws e, c1, w1) \<Rightarrow> (Throws e, c1, w1)
      | (Unmodelled, c1, w1) \<Rightarrow> (Unmodelled, c1, w1))"

text \<open>The object posted: the path is \<open>path || `\\${this.project}\\${iterationName}`\<close>.\<close>

definition new_iteration ::
  "creator \<Rightarrow> string \<Rightarrow> js_date option \<Rightarrow> js_date option \<Rightarrow> string option \<Rightarrow> iteration" where
  "new_iteration c iterationName start_date end_date path =
     \<lparr>iter_name = iterationName,
      iter_startDate = map_option formatDate start_date,
      iter_finishDate = map_option formatDate end_date,
      iter_path = or_default path ([CHR 0x5C] @ ado_project c @ [CHR 0x5C] @ iterationName)\<rparr>"

text \<open>
  The \<open>try\<close> block of \<open>createIteration\<close>: a null client or a rejected post is caught and
  gives null; a created iteration goes into the cache under the lowercased name.
\<close>

definition post_iteration ::
  "string \<Rightarrow> js_date option \<Rightarrow> js_date option \<Rightarrow> string option \<Rightarrow> creator \<times> world
     \<Rightarrow> iteration option outcome \<times> creator \<times> world" where
  "post_iteration iterationName start_date end_date path cw =
     (case cw of (c, w) \<Rightarrow>
        if workClient c then
          (case creation w (length (requests w)) of
             Some created \<Rightarrow>
               (Returns (Some created),
                c\<lparr>existingIterations :=
                    (existingIterations c)(toLowerCase iterationName \<mapsto> created)\<rparr>,
                send (PostTeamIteration (new_iteration c iterationName start_date end_date path)) w)
           | None \<Rightarrow>
               (Returns None, c,
                send (PostTeamIteration (new_iteration c iterationName start_date end_date path)) w))
        else (Returns None, c, w))"

definition createIteration ::
  "string \<Rightarrow> js_date option \<Rightarrow> js_date option \<Rightarrow> string option \<Rightarrow> creator \<times> world
     \<Rightarrow> iteration option outcome \<times> creator \<times> world" where
  "createIteration iterationName start_date end_date path cw =
     (case initialize cw of
        (Returns u, cw0) \<Rightarrow>
          (case iterationExists iterationName cw0 of
             (Returns exists, cw1) \<Rightarrow>
               if exists then getIteration iterationName cw1
               else post_iteration iterationName start_date end_date path cw1
           | (Throws e, cw1) \<Rightarrow> (Throws e, cw1)
           | (Unmodelled, cw1) \<Rightarrow> (Unmodelled, cw1))
      | (Throws e, cw0) \<Rightarrow> (Throws e, cw0)
      | (Unmodelled, cw0) \<Rightarrow> (Unmodelled, cw0))"

text \<open>
  The sprint field of a project item: its name, and the start date string and the duration
  in days when it is an iteration field.
\<close>

record sprint_info =
  sprint_name :: string
  sprint_startDate :: "string option"
  sprint_duration :: "int option"

text \<open>
  \<open>createFromSprintInfo(sprintInfo, defaultDuration)\<close>. \<open>parse_date\<close> stands for
  \<open>new Date(string)\<close> and \<open>today\<close> for the day of \<open>new Date()\<close>, which also gives the
  default year of \<open>parseSprintDates\<close>. The first component of the pair computed is the
  start date, the second the end date.
\<close>

definition sprint_interval ::
  "(string \<Rightarrow> js_date) \<Rightarrow> int \<Rightarrow> sprint_info \<Rightarrow> int \<Rightarrow> js_date option \<times> js_date option" where
  "sprint_interval parse_date today info defaultDuration =
     (let startDate0 =
            (case sprint_startDate info of
               Some s \<Rightarrow> if s = [] then None else Some (parse_date s)
             | None \<Rightarrow> None);
          duration = (case sprint_duration info of Some d \<Rightarrow> d | None \<Rightarrow> 0);
          dates =
            (case startDate0 of
               Some start \<Rightarrow>
                 if duration = 0 then (startDate0, None)
                 else (startDate0, Some (add_days start duration))
             | None \<Rightarrow>
                 (case parseSprintDates (sprint_name info) (fst (civil_from_days today)) of
                    Some parsed \<Rightarrow> (Some (startDate parsed), Some (endDate parsed))
                  | None \<Rightarrow> (None, None)))
      in if fst dates = None
         then (Some (Day today), Some (add_days (Day today) defaultDuration))
         else dates)"

definition createFromSprintInfo ::
  "(string \<Rightarrow> js_date) \<Rightarrow> int \<Rightarrow> sprint_info option \<Rightarrow> int \<Rightarrow> creator \<times> world
     \<Rightarrow> iteration option outcome \<times> creator \<times> world" where
  "createFromSprintInfo parse_date today sprintInfo defaultDuration cw =
     (case sprintInfo of
        None \<Rightarrow> (Returns None, cw)
      | Some info \<Rightarrow>
          if sprint_name info = [] then (Returns None, cw)
          else (case sprint_interval parse_date today info defaultDuration of
                  (start_date, end_date) \<Rightarrow>
                    createIteration (sprint_name info) start_date end_date None cw))"

text \<open>The create requests among the calls made.\<close>

fun is_post :: "request \<Rightarrow> bool" where
  "is_post (PostTeamIteration it) = True"
| "is_post r = False"

definition posts :: "world \<Rightarrow> request list" where
  "posts w = filter is_post (requests w)"

section \<open>The sync workflow\<close>

text \<open>The feature flags of \<open>config.js\<close> that the update path reads.\<close>

record features =
  syncTitle :: bool
  syncDescription :: bool
  syncProjectStatus :: bool

definition config_features :: features where
  "config_features = \<lparr>syncTitle = True, syncDescription = True, syncProjectStatus = True\<rparr>"

text \<open>The view model of an issue (the fields used below; \<open>ghToken\<close> is \<open>vm.env.ghToken\<close>).\<close>

record vm =
  number :: int
  title :: string
  body :: string
  user :: string
  labels :: "string list"
  ghToken :: string

record work_item =
  wi_id :: nat
  wi_fields :: "(string \<times> string) list"

record project_info =
  pi_projectName :: string
  pi_projectNumber :: int

text \<open>\<open>Patch op path value\<close>\<close>

datatype patch_operation = Patch string string string

text \<open>
  \<open>updateWorkItem\<close>, up to the patch document it hands to \<open>updateWorkItemDirect\<close>.
  \<open>makeHtml\<close> is the markdown converter. The title is compared with the target's; the
  description is pushed without a comparison. In the state block \<open>projectsClient\<close> is
  not a variable of this function nor of the module (it is local to \<open>handleSingleIssue\<close>
  and to \<open>handleBulkMigration\<close>), so evaluating it throws a ReferenceError before the state
  is computed.
\<close>

definition updateWorkItem ::
  "features \<Rightarrow> (string \<Rightarrow> string) \<Rightarrow> vm \<Rightarrow> work_item \<Rightarrow> project_info option
     \<Rightarrow> patch_operation list outcome" where
  "updateWorkItem config makeHtml vm workItem projectInfo =
     (let newTitle = title vm @ '' (GitHub Issue #'' @ show_int (number vm) @ '')'';
          titlePatch =
            (if syncTitle config then
               (if map_of (wi_fields workItem) ''System.Title'' = Some newTitle then []
                else [Patch ''replace'' ''/fields/System.Title'' newTitle])
             else []);
          descriptionPatch =
            (if syncDescription config
             then [Patch ''replace'' ''/fields/System.Description'' (makeHtml (body vm))]
             else [])
      in if syncProjectStatus config \<and> projectInfo \<noteq> None then Throws ReferenceError
         else Returns
                (titlePatch @ descriptionPatch @
                 [Patch ''add'' ''/fields/System.History''
                    (''Issue updated on GitHub by '' @ user vm)]))"

text \<open>What a collaborator's promise does.\<close>

datatype 'a response = Rejects | Resolves 'a

text \<open>What \<open>find\<close> returns: \<open>-1\<close>, \<open>null\<close> or the work item.\<close>

datatype lookup = Lookup_error | Not_found | Found work_item

text \<open>
  \<open>find(vm)\<close> over the answers of the target system: whether the tracking client connects,
  the ids the WIQL query yields (none also when the result is null), and the work item
  fetched for an id.
\<close>

definition find_work_item ::
  "bool \<Rightarrow> nat list response \<Rightarrow> (nat \<Rightarrow> work_item response) \<Rightarrow> lookup" where
  "find_work_item connected queryByWiql getWorkItem =
     (if connected then
        (case queryByWiql of
           Rejects \<Rightarrow> Lookup_error
         | Resolves ids \<Rightarrow>
             (case ids of
                [] \<Rightarrow> Not_found
              | i # rest \<Rightarrow>
                  (case getWorkItem i of
                     Rejects \<Rightarrow> Lookup_error
                   | Resolves workItem \<Rightarrow> Found workItem)))
      else Lookup_error)"

text \<open>
  \<open>createWorkItem\<close>, up to its result. With project information at hand its second
  statement evaluates \<open>projectsClient\<close> and throws, as in \<open>updateWorkItem\<close>; otherwise
  the result is that of \<open>executeWorkItemCreate\<close>: the work item, or \<open>-1\<close> when the
  creation is rejected. The patch document it sends is not modelled.
\<close>

definition createWorkItem :: "project_info option \<Rightarrow> work_item response \<Rightarrow> lookup outcome" where
  "createWorkItem projectInfo executed =
     (if projectInfo \<noteq> None then Throws ReferenceError
      else (case executed of
              Rejects \<Rightarrow> Returns Lookup_error
            | Resolves workItem \<Rightarrow> Returns (Found workItem)))"

text \<open>The calls a workflow step makes to write to the target and to the source system.\<close>

datatype call =
  Create_work_item "js_value outcome"
  | Update_work_item nat "patch_operation list"
  | Update_issue_body nat

text \<open>
  The body of the loop of \<open>handleBulkMigration\<close> for one issue: the calls made, and whether
  the issue counts as a success. \<open>found\<close> is what \<open>find\<close> returned, \<open>executed\<close> the
  answer of the target system to a creation. An exception is caught and counted as a failure.
\<close>

definition bulk_issue ::
  "config \<Rightarrow> features \<Rightarrow> (string \<Rightarrow> string) \<Rightarrow> vm \<Rightarrow> project_info option \<Rightarrow> lookup
     \<Rightarrow> work_item response \<Rightarrow> call list \<times> bool" where
  "bulk_issue cfg config makeHtml vm projectInfo found executed =
     (if found = Not_found \<or> found = Lookup_error then
        (case createWorkItem projectInfo executed of
           Returns (Found workItem) \<Rightarrow>
             (Create_work_item (getWorkItemType cfg (title vm) (labels vm)) #
                (if ghToken vm = [] then [] else [Update_issue_body (wi_id workItem)]),
              True)
         | Returns other \<Rightarrow>
             ([Create_work_item (getWorkItemType cfg (title vm) (labels vm))], False)
         | failed \<Rightarrow> ([], False))
      else (case found of
              Found workItem \<Rightarrow>
                (case updateWorkItem config makeHtml vm workItem projectInfo of
                   Returns patchDocument \<Rightarrow>
                     ([Update_work_item (wi_id workItem) patchDocument], True)
                 | failed \<Rightarrow> ([], False))
            | other \<Rightarrow> ([], False)))"

text \<open>
  The same step in \<open>handleSingleIssue\<close>, up to the handling of the action: a lookup error
  ends the run with no call; only \<open>null\<close> leads to a creation.
\<close>

definition single_issue ::
  "config \<Rightarrow> vm \<Rightarrow> project_info option \<Rightarrow> lookup \<Rightarrow> work_item response \<Rightarrow> call list" where
  "single_issue cfg vm projectInfo found executed =
     (case found of
        Lookup_error \<Rightarrow> []
      | Not_found \<Rightarrow>
          (case createWorkItem projectInfo executed of
             Returns (Found workItem) \<Rightarrow>
               Create_work_item (getWorkItemType cfg (title vm) (labels vm)) #
                 (if ghToken vm = [] then [] else [Update_issue_body (wi_id workItem)])
           | Returns other \<Rightarrow> [Create_work_item (getWorkItemType cfg (title vm) (labels vm))]
           | failed \<Rightarrow> [])
      | Found workItem \<Rightarrow> [])"

text \<open>Concrete inputs used in the statements below.\<close>

definition fresh_creator :: creator where
  "fresh_creator =
     \<lparr>ado_project = ''siwar'', connection = False, workClient = False,
      existingIterations = Map.empty, cacheLoaded = False\<rparr>"

definition sprint_1 :: iteration where
  "sprint_1 =
     \<lparr>iter_name = ''Sprint 1'', iter_startDate = Some ''2024-01-01'',
      iter_finishDate = Some ''2024-01-14'', iter_path = ''siwar/Sprint 1''\<rparr>"

definition sprint_2 :: iteration where
  "sprint_2 =
     \<lparr>iter_name = ''Sprint 2'', iter_startDate = Some ''2024-01-15'',
      iter_finishDate = Some ''2024-01-28'', iter_path = ''siwar/Sprint 2''\<rparr>"

text \<open>A store that lists \<open>Sprint 1\<close> and rejects every creation.\<close>

definition rejecting_world :: world where
  "rejecting_world =
     \<lparr>api_up = (\<lambda>n. True), listing = (\<lambda>n. Some [sprint_1]), creation = (\<lambda>n. None),
      requests = []\<rparr>"

text \<open>A store that lists \<open>Sprint 1\<close> and answers every creation with \<open>Sprint 2\<close>.\<close>

definition accepting_world :: world where
  "accepting_world =
     \<lparr>api_up = (\<lambda>n. True), listing = (\<lambda>n. Some [sprint_1]), creation = (\<lambda>n. Some sprint_2),
      requests = []\<rparr>"

definition sprint_2_info :: sprint_info where
  "sprint_2_info =
     \<lparr>sprint_name = ''Sprint 2'', sprint_startDate = None, sprint_duration = None\<rparr>"

definition issue_7 :: vm where
  "issue_7 =
     \<lparr>number = 7, title = ''Crash on start'', body = ''Steps'', user = ''ann'', labels = [],
      ghToken = ''token''\<rparr>"

definition item_42 :: work_item where
  "item_42 =
     \<lparr>wi_id = 42,
      wi_fields = [(''System.Title'', ''Crash on start (GitHub Issue #7)''),
                (''System.Description'', ''Steps'')]\<rparr>"

definition item_43 :: work_item where
  "item_43 =
     \<lparr>wi_id = 43,
      wi_fields = [(''System.Title'', ''Crash on start (GitHub Issue #7)''),
                (''System.Description'', ''Steps'')]\<rparr>"

section \<open>State resolution\<close>

lemma toLowerCase_closed: "toLowerCase ''closed'' = ''closed''"
  by (simp add: toLowerCase_def lower_char_def)

lemma toLowerCase_siwar: "toLowerCase ''siwar'' = ''siwar''"
  by (simp add: toLowerCase_def lower_char_def)

lemma js_get_Some: "map_of obj k = Some v \<Longrightarrow> js_get obj k = Own v"
  by (simp add: js_get_def)

lemma getAdoState_status_absent:
  assumes "projectStatus = None \<or> projectStatus = Some []"
  shows "getAdoState cfg workItemType issueState projectName projectStatus =
           Returns (getGlobalFallback cfg (toLowerCase (or_default issueState ''open'')))"
  using assms by (auto simp: getAdoState_def)

lemma getAdoState_project_undefined:
  assumes "js_get (projects cfg) (toLowerCase (or_default projectName (defaultProject cfg)))
             = Undefined"
  shows "getAdoState cfg workItemType issueState projectName projectStatus =
           Returns (getGlobalFallback cfg (toLowerCase (or_default issueState ''open'')))"
  using assms by (auto simp: getAdoState_def Let_def split: option.splits)

lemma getGlobalFallback_default:
  assumes "issueState \<notin> set object_prototype_keys"
  shows "getGlobalFallback getDefaultConfig issueState =
           Str (if issueState = ''closed'' then ''Done'' else ''New'')"
  using assms by (auto simp: getGlobalFallback_def getDefaultConfig_def js_get_def)

lemma closed_bug_siwar_present:
  assumes "status \<noteq> []"
  shows "getAdoState getDefaultConfig ''Bug'' (Some ''closed'') (Some ''siwar'') (Some status)
           = Returns (Str ''Done'')"
  using assms
  by (simp add: getAdoState_def project_state_def getDefaultConfig_def siwar_def
      bug_mappings_def closed_map_def js_get_def toLowerCase_closed toLowerCase_siwar)

lemma closed_bug_siwar_absent:
  assumes "status = None \<or> status = Some []"
  shows "getAdoState getDefaultConfig ''Bug'' (Some ''closed'') (Some ''siwar'') status
           = Returns (Str ''Done'')"
  using assms
  by (auto simp: getAdoState_def getGlobalFallback_def getDefaultConfig_def js_get_def
      toLowerCase_closed)

lemma closed_bug_siwar:
  "getAdoState getDefaultConfig ''Bug'' (Some ''closed'') (Some ''siwar'') status
     = Returns (Str ''Done'')"
proof (cases status)
  case None
  then show ?thesis by (simp add: closed_bug_siwar_absent)
next
  case (Some s)
  then show ?thesis
    by (cases "s = []") (simp_all add: closed_bug_siwar_absent closed_bug_siwar_present)
qed

text \<open>
  Claim C2, as amended. When the project status is present (neither null nor the empty
  string), the project key (the given name, or the default project when none is given,
  lowercased) has an entry in the projects table, that project has a table for the work
  item type, and that table has, for the normalised source state (lowercased,
  \<open>open\<close> when none is given), a sub-table with a non-empty wildcard entry, then
  \<open>getAdoState\<close> returns the wildcard value, whatever the project status is. Under the
  default configuration a closed \<open>Bug\<close> of project \<open>siwar\<close> resolves to \<open>Done\<close> for
  every status value, present or not.
\<close>

theorem getAdoState_wildcard:
  assumes "projectStatus = Some status" and "status \<noteq> []"
    and "map_of (projects cfg) (toLowerCase (or_default projectName (defaultProject cfg)))
           = Some project"
    and "map_of (statusMappings project) workItemType = Some mappings"
    and "map_of mappings (toLowerCase (or_default sourceState ''open'')) = Some stateMap"
    and "map_of stateMap ''*'' = Some w" and "w \<noteq> []"
  shows "getAdoState cfg workItemType sourceState projectName projectStatus = Returns (Str w)
         \<and> (\<forall>st. getAdoState getDefaultConfig ''Bug'' (Some ''closed'') (Some ''siwar'') st
                  = Returns (Str ''Done''))"
proof
  show "getAdoState cfg workItemType sourceState projectName projectStatus = Returns (Str w)"
    using assms by (simp add: getAdoState_def project_state_def js_get_Some)
  show "\<forall>st. getAdoState getDefaultConfig ''Bug'' (Some ''closed'') (Some ''siwar'') st
              = Returns (Str ''Done'')"
    by (simp add: closed_bug_siwar)
qed

theorem getAdoState_wildcard_witness:
  "map_of (projects getDefaultConfig)
       (toLowerCase (or_default (Some ''Siwar'') (defaultProject getDefaultConfig))) = Some siwar
   \<and> map_of (statusMappings siwar) ''Bug'' = Some bug_mappings
   \<and> map_of bug_mappings (toLowerCase (or_default (Some ''CLOSED'') ''open'')) = Some closed_map
   \<and> map_of closed_map ''*'' = Some ''Done''
   \<and> getAdoState getDefaultConfig ''Bug'' (Some ''CLOSED'') (Some ''Siwar'')
        (Some ''In Production'') = Returns (Str ''Done'')"
proof -
  have p: "map_of (projects getDefaultConfig)
             (toLowerCase (or_default (Some ''Siwar'') (defaultProject getDefaultConfig)))
           = Some siwar"
    by (simp add: getDefaultConfig_def toLowerCase_def lower_char_def)
  have t: "map_of (statusMappings siwar) ''Bug'' = Some bug_mappings"
    by (simp add: siwar_def)
  have s: "map_of bug_mappings (toLowerCase (or_default (Some ''CLOSED'') ''open''))
           = Some closed_map"
    by (simp add: bug_mappings_def toLowerCase_def lower_char_def)
  have w: "map_of closed_map ''*'' = Some ''Done''"
    by (simp add: closed_map_def)
  have "getAdoState getDefaultConfig ''Bug'' (Some ''CLOSED'') (Some ''Siwar'')
          (Some ''In Production'') = Returns (Str ''Done'')"
    using getAdoState_wildcard [OF refl _ p t s w, of "''In Production''"] by simp
  with p t s w show ?thesis by simp
qed

text \<open>
  Claim C2, as stated, fails for the empty string, which is not null: with a global
  fallback \<open>Closed\<close> for closed issues, the closed sub-table of \<open>Bug\<close> in \<open>siwar\<close> still
  has the wildcard entry \<open>Done\<close>, and the answer for the status \<open>""\<close> is the fallback.
\<close>

theorem getAdoState_wildcard_counterexample:
  "map_of (projects closed_fallback_config) ''siwar'' = Some siwar
   \<and> map_of (statusMappings siwar) ''Bug'' = Some bug_mappings
   \<and> map_of bug_mappings ''closed'' = Some closed_map
   \<and> map_of closed_map ''*'' = Some ''Done''
   \<and> getAdoState closed_fallback_config ''Bug'' (Some ''closed'') (Some ''siwar'') (Some '''')
       = Returns (Str ''Closed'')"
  by (simp add: closed_fallback_config_def getDefaultConfig_def siwar_def bug_mappings_def
      closed_map_def getAdoState_def getGlobalFallback_def js_get_def toLowerCase_closed)

text \<open>
  Claim C3. The project name \<open>constructor\<close> has no entry in the configured projects table,
  and the global fallback for an open issue is \<open>New\<close>; yet with a status present
  \<open>getAdoState\<close> does not return the fallback: \<open>this.config.projects["constructor"]\<close> is
  the inherited \<open>Object\<close> function, the guard lets it through, and reading
  \<open>project.statusMappings[workItemType]\<close> throws a TypeError.
\<close>

theorem getAdoState_unconfigured_project_throws:
  "map_of (projects getDefaultConfig) (toLowerCase ''constructor'') = None
   \<and> getGlobalFallback getDefaultConfig ''open'' = Str ''New''
   \<and> getAdoState getDefaultConfig ''Task'' (Some ''open'') (Some ''constructor'')
       (Some ''In Progress'') = Throws TypeError"
  by (simp add: getAdoState_def getGlobalFallback_def getDefaultConfig_def js_get_def
      object_prototype_keys_def toLowerCase_def lower_char_def)

text \<open>
  Claim C4. Under the default configuration \<open>getAdoState\<close> throws for the project name
  \<open>__proto__\<close> with a status present, and for the source state \<open>constructor\<close> it returns
  the inherited \<open>Object\<close> function, which is not a string.
\<close>

theorem getAdoState_not_total:
  "getAdoState getDefaultConfig ''Bug'' (Some ''closed'') (Some ''__proto__'')
       (Some ''In Production'') = Throws TypeError
   \<and> getAdoState getDefaultConfig ''Bug'' (Some ''constructor'') None None
       = Returns (Builtin ''constructor'')"
  by (simp add: getAdoState_def getGlobalFallback_def getDefaultConfig_def js_get_def
      object_prototype_keys_def toLowerCase_def lower_char_def)

text \<open>
  Away from the names that a plain object inherits, the default configuration does give a
  string for every input.
\<close>

lemma truthy_map_of:
  assumes "k \<notin> set object_prototype_keys" and "[] \<notin> snd ` set obj"
  shows "truthy_value (js_get obj k) = map_option Str (map_of obj k)"
proof (cases "map_of obj k")
  case None
  with assms show ?thesis by (simp add: js_get_def)
next
  case (Some v)
  then have "(k, v) \<in> set obj" by (rule map_of_SomeD)
  then have "v \<noteq> []"
    using assms(2) by force
  with Some show ?thesis by (simp add: js_get_def)
qed

lemma getGlobalFallback_default_string:
  assumes "issueState \<notin> set object_prototype_keys"
  shows "\<exists>s. getGlobalFallback getDefaultConfig issueState = Str s"
  using assms by (auto simp: getGlobalFallback_def getDefaultConfig_def js_get_def)

lemma star_not_inherited: "''*'' \<notin> set object_prototype_keys"
  and no_status_not_inherited: "''No status'' \<notin> set object_prototype_keys"
  and no_Status_not_inherited: "''No Status'' \<notin> set object_prototype_keys"
  by (simp_all add: object_prototype_keys_def)

lemma state_map_string:
  assumes "projectStatus \<notin> set object_prototype_keys" and "[] \<notin> snd ` set stateMap"
    and "\<exists>s. fb = Str s"
  shows "\<exists>s. (case truthy_value (js_get stateMap ''*'') of
                Some v \<Rightarrow> Returns v
              | None \<Rightarrow>
                  (case truthy_value (js_get stateMap projectStatus) of
                     Some v \<Rightarrow> Returns v
                   | None \<Rightarrow>
                       (case truthy_value (js_get stateMap ''No status'') of
                          Some v \<Rightarrow> Returns v
                        | None \<Rightarrow>
                            (case truthy_value (js_get stateMap ''No Status'') of
                               Some v \<Rightarrow> Returns v
                             | None \<Rightarrow> Returns fb)))) = Returns (Str s)"
  using assms
  by (auto simp: truthy_map_of star_not_inherited no_status_not_inherited
      no_Status_not_inherited split: option.splits)

lemma default_state_maps:
  assumes "map_of (statusMappings siwar) workItemType = Some mappings"
    and "map_of mappings issueState = Some stateMap"
  shows "[] \<notin> snd ` set stateMap"
proof -
  have "(workItemType, mappings) \<in> set (statusMappings siwar)"
    using assms(1) by (rule map_of_SomeD)
  then have m: "mappings \<in> {epic_mappings, pbi_mappings, bug_mappings, task_mappings}"
    by (auto simp: siwar_def)
  have "(issueState, stateMap) \<in> set mappings"
    using assms(2) by (rule map_of_SomeD)
  with m show ?thesis
    by (auto simp: epic_mappings_def pbi_mappings_def bug_mappings_def task_mappings_def
        closed_map_def)
qed

lemma project_state_default_string:
  assumes "workItemType \<notin> set object_prototype_keys"
    and "issueState \<notin> set object_prototype_keys"
    and "projectStatus \<notin> set object_prototype_keys"
  shows "\<exists>s. project_state getDefaultConfig siwar workItemType issueState projectStatus
              = Returns (Str s)"
proof (cases "map_of (statusMappings siwar) workItemType")
  case None
  with assms show ?thesis
    by (simp add: project_state_def js_get_def getGlobalFallback_default_string)
next
  case t: (Some mappings)
  show ?thesis
  proof (cases "map_of mappings issueState")
    case None
    with t assms show ?thesis
      by (simp add: project_state_def js_get_def getGlobalFallback_default_string)
  next
    case (Some stateMap)
    have "[] \<notin> snd ` set stateMap"
      using t Some by (rule default_state_maps)
    from state_map_string [OF assms(3) this getGlobalFallback_default_string [OF assms(2)]]
    show ?thesis
      using t Some by (simp add: project_state_def js_get_def)
  qed
qed

lemma getAdoState_default_string:
  assumes "workItemType \<notin> set object_prototype_keys"
    and "toLowerCase (or_default issueState ''open'') \<notin> set object_prototype_keys"
    and "toLowerCase (or_default projectName ''siwar'') \<notin> set object_prototype_keys"
    and "projectStatus = None \<or> (\<exists>st. projectStatus = Some st \<and> st \<notin> set object_prototype_keys)"
  shows "\<exists>s. getAdoState getDefaultConfig workItemType issueState projectName projectStatus
              = Returns (Str s)"
proof (cases projectStatus)
  case None
  then show ?thesis
    using getGlobalFallback_default_string [OF assms(2)]
    by (simp add: getAdoState_def)
next
  case (Some st)
  with assms(4) have st: "st \<notin> set object_prototype_keys" by simp
  have d: "defaultProject getDefaultConfig = ''siwar''"
    by (simp add: getDefaultConfig_def)
  have p: "projects getDefaultConfig = [(''siwar'', siwar)]"
    by (simp add: getDefaultConfig_def)
  show ?thesis
    using Some assms(3) getGlobalFallback_default_string [OF assms(2)]
      project_state_default_string [OF assms(1) assms(2) st]
    by (auto simp: getAdoState_def Let_def d p js_get_def)
qed

section \<open>Sprint dates\<close>

lemma first_match_month_names:
  "first_match patterns ''Sprint 68 oct 13 - oct 26'' = Some [''oct'', ''13'', ''oct'', ''26'']"
  by code_simp

lemma first_match_numeric:
  "first_match patterns ''10/13 - 10/26'' = Some [''10'', ''13'', ''10'', ''26'']"
  by code_simp

lemma first_match_iso:
  "first_match patterns ''2024-10-13 to 2024-10-26''
     = Some [''2024'', ''10'', ''13'', ''2024'', ''10'', ''26'']"
  by code_simp

lemma october_13: "new_Date (Some 2024) (Some 9) (Some 13) = Day 20009"
  by code_simp

lemma october_26: "new_Date (Some 2024) (Some 9) (Some 26) = Day 20022"
  by code_simp

lemma extract_month_names:
  "extractDatesFromMatch [''oct'', ''13'', ''oct'', ''26''] 2024
     = Some \<lparr>startDate = Day 20009, endDate = Day 20022\<rparr>"
  by code_simp

lemma extract_numeric:
  "extractDatesFromMatch [''10'', ''13'', ''10'', ''26''] 2024
     = Some \<lparr>startDate = Day 20009, endDate = Day 20022\<rparr>"
  by code_simp

lemma iso_is_number: "isNaN ''2024'' = False"
  by code_simp

lemma iso_start:
  "new_Date (decimal_number ''2024'') (map_option (\<lambda>m. m - 1) (parseInt ''10''))
     (decimal_number ''13'') = Day 20009"
  by code_simp

lemma iso_end:
  "new_Date (decimal_number ''2024'') (map_option (\<lambda>m. m - 1) (parseInt ''10''))
     (decimal_number ''26'') = Day 20022"
  by code_simp

lemma extract_iso:
  "extractDatesFromMatch [''2024'', ''10'', ''13'', ''2024'', ''10'', ''26''] year
     = Some \<lparr>startDate = Day 20009, endDate = Day 20022\<rparr>"
  by (simp add: extractDatesFromMatch_def iso_is_number iso_start iso_end)

lemma first_match_none:
  assumes "regex_match month_name_pattern s = None"
    and "regex_match numeric_pattern s = None"
    and "regex_match iso_pattern s = None"
  shows "first_match patterns s = None"
  using assms by (simp add: patterns_def)

text \<open>
  Claim C5. With the year 2024, \<open>Sprint 68 oct 13 - oct 26\<close> and \<open>10/13 - 10/26\<close> parse to
  the pair of 13 October 2024 and 26 October 2024; \<open>2024-10-13 to 2024-10-26\<close> parses to the
  same pair whatever the year argument; \<open>formatDate\<close> prints the two dates as
  \<open>2024-10-13\<close> and \<open>2024-10-26\<close>; and a string that none of the three patterns matches
  parses to null.
\<close>

theorem parseSprintDates_round_trip:
  "parseSprintDates ''Sprint 68 oct 13 - oct 26'' 2024
     = Some \<lparr>startDate = new_Date (Some 2024) (Some 9) (Some 13),
              endDate = new_Date (Some 2024) (Some 9) (Some 26)\<rparr>
   \<and> parseSprintDates ''10/13 - 10/26'' 2024
     = Some \<lparr>startDate = new_Date (Some 2024) (Some 9) (Some 13),
              endDate = new_Date (Some 2024) (Some 9) (Some 26)\<rparr>
   \<and> (\<forall>year. parseSprintDates ''2024-10-13 to 2024-10-26'' year
     = Some \<lparr>startDate = new_Date (Some 2024) (Some 9) (Some 13),
              endDate = new_Date (Some 2024) (Some 9) (Some 26)\<rparr>)
   \<and> formatDate (new_Date (Some 2024) (Some 9) (Some 13)) = ''2024-10-13''
   \<and> formatDate (new_Date (Some 2024) (Some 9) (Some 26)) = ''2024-10-26''
   \<and> (\<forall>s year.
         regex_match month_name_pattern s = None \<and> regex_match numeric_pattern s = None
         \<and> regex_match iso_pattern s = None
         \<longrightarrow> parseSprintDates s year = None)"
proof (intro conjI allI impI)
  show "parseSprintDates ''Sprint 68 oct 13 - oct 26'' 2024
          = Some \<lparr>startDate = new_Date (Some 2024) (Some 9) (Some 13),
                   endDate = new_Date (Some 2024) (Some 9) (Some 26)\<rparr>"
    by (simp add: parseSprintDates_def first_match_month_names extract_month_names
        october_13 october_26)
  show "parseSprintDates ''10/13 - 10/26'' 2024
          = Some \<lparr>startDate = new_Date (Some 2024) (Some 9) (Some 13),
                   endDate = new_Date (Some 2024) (Some 9) (Some 26)\<rparr>"
    by (simp add: parseSprintDates_def first_match_numeric extract_numeric
        october_13 october_26)
  show "parseSprintDates ''2024-10-13 to 2024-10-26'' year
          = Some \<lparr>startDate = new_Date (Some 2024) (Some 9) (Some 13),
                   endDate = new_Date (Some 2024) (Some 9) (Some 26)\<rparr>" for year
    by (simp add: parseSprintDates_def first_match_iso extract_iso october_13 october_26)
  show "formatDate (new_Date (Some 2024) (Some 9) (Some 13)) = ''2024-10-13''"
    by code_simp
  show "formatDate (new_Date (Some 2024) (Some 9) (Some 26)) = ''2024-10-26''"
    by code_simp
  show "parseSprintDates s year = None"
    if "regex_match month_name_pattern s = None \<and> regex_match numeric_pattern s = None
        \<and> regex_match iso_pattern s = None" for s year
    using that by (simp add: parseSprintDates_def first_match_none)
qed

theorem parseSprintDates_round_trip_witness:
  "regex_match month_name_pattern ''Sprint 70'' = None
   \<and> regex_match numeric_pattern ''Sprint 70'' = None
   \<and> regex_match iso_pattern ''Sprint 70'' = None
   \<and> parseSprintDates ''Sprint 70'' 2024 = None"
proof -
  have m: "regex_match month_name_pattern ''Sprint 70'' = None"
    by code_simp
  have n: "regex_match numeric_pattern ''Sprint 70'' = None"
    by code_simp
  have i: "regex_match iso_pattern ''Sprint 70'' = None"
    by code_simp
  have "parseSprintDates ''Sprint 70'' 2024 = None"
    using parseSprintDates_round_trip m n i by blast
  with m n i show ?thesis by simp
qed

lemma lower_char_idem: "lower_char (lower_char c) = lower_char c"
proof (cases "map_of (zip ''ABCDEFGHIJKLMNOPQRSTUVWXYZ'' ''abcdefghijklmnopqrstuvwxyz'') c")
  case None
  then show ?thesis by (simp add: lower_char_def)
next
  case (Some l)
  then have "(c, l) \<in> set (zip ''ABCDEFGHIJKLMNOPQRSTUVWXYZ'' ''abcdefghijklmnopqrstuvwxyz'')"
    by (rule map_of_SomeD)
  then have "l \<in> set ''abcdefghijklmnopqrstuvwxyz''"
    by (rule set_zip_rightD)
  moreover have "list_all (\<lambda>x. lower_char x = x) ''abcdefghijklmnopqrstuvwxyz''"
    by code_simp
  ultimately have "lower_char l = l"
    by (simp only: list_all_iff)
  with Some show ?thesis by (simp add: lower_char_def)
qed

lemma toLowerCase_idem: "toLowerCase (toLowerCase s) = toLowerCase s"
  by (simp add: toLowerCase_def lower_char_idem)

lemma parseMonth_case_insensitive: "parseMonth (toLowerCase s) = parseMonth s"
  by (simp add: parseMonth_def toLowerCase_idem)

lemma parseMonth_synonyms:
  "map parseMonth
     [''jan'', ''january'', ''feb'', ''february'', ''mar'', ''march'', ''apr'', ''april'',
      ''may'', ''may'', ''jun'', ''june'', ''jul'', ''july'', ''aug'', ''august'', ''sep'',
      ''september'', ''oct'', ''october'', ''nov'', ''november'', ''dec'', ''december'']
   = map Num [0, 0, 1, 1, 2, 2, 3, 3, 4, 4, 5, 5, 6, 6, 7, 7, 8, 8, 9, 9, 10, 10, 11, 11]"
  by code_simp

lemma parseMonth_upper_case:
  "map parseMonth [''OCT'', ''October'', ''nOv'', ''DECEMBER''] = map Num [9, 9, 10, 11]"
  by code_simp

lemma months_range:
  assumes "map_of months k = Some n"
  shows "0 \<le> n \<and> n \<le> 11"
proof -
  have "(k, n) \<in> set months"
    using assms by (rule map_of_SomeD)
  then show ?thesis
    by (auto simp: months_def)
qed

lemma parseMonth_range:
  assumes "toLowerCase monthStr \<notin> set object_prototype_keys"
  shows "\<exists>n. parseMonth monthStr = Num n \<and> 0 \<le> n \<and> n \<le> 11"
proof (cases "map_of months (toLowerCase monthStr)")
  case None
  with assms show ?thesis
    by (simp add: parseMonth_def js_get_def)
next
  case (Some n)
  with months_range [OF Some] show ?thesis
    by (simp add: parseMonth_def js_get_def)
qed

lemma parseMonth_unrecognized:
  assumes "map_of months (toLowerCase monthStr) = None"
    and "toLowerCase monthStr \<notin> set object_prototype_keys"
  shows "parseMonth monthStr = Num 0"
  using assms by (simp add: parseMonth_def js_get_def)

text \<open>
  Claim C6. The month table has no entry for \<open>constructor\<close>, but \<open>months["constructor"]\<close>
  is the inherited \<open>Object\<close> function, which is truthy, so \<open>parseMonth\<close> returns it
  instead of 0; a sprint name carrying that word as its first month then parses to an
  invalid start date.
\<close>

theorem parseMonth_inherited_name:
  "map_of months (toLowerCase ''constructor'') = None
   \<and> parseMonth ''constructor'' = Builtin ''constructor''
   \<and> parseSprintDates ''Sprint constructor 13 - oct 26'' 2024
       = Some \<lparr>startDate = Invalid_Date,
                endDate = new_Date (Some 2024) (Some 9) (Some 26)\<rparr>"
  by code_simp

section \<open>Work item type\<close>

lemma getWorkItemType_examples:
  "getWorkItemType getDefaultConfig ''[Epic] Launch V2'' [] = Returns (Str ''Epic'')
   \<and> getWorkItemType getDefaultConfig ''[EPIC] launch'' [''task''] = Returns (Str ''Epic'')
   \<and> getWorkItemType getDefaultConfig ''Launch V2'' [''Task''] = Returns (Str ''Task'')
   \<and> getWorkItemType getDefaultConfig ''Launch V2'' [''ui'', ''bug'', ''task'']
       = Returns (Str ''Bug'')
   \<and> getWorkItemType getDefaultConfig ''Launch V2'' [''ui'']
       = Returns (Str ''Product Backlog Item'')"
  by code_simp

text \<open>
  Claim C9. Under the default configuration no prefix matches the title
  \<open>Refactor the parser\<close> and the label table has no entry for \<open>constructor\<close>, so the
  configured default type is due; but \<open>labelMap["constructor"]\<close> is the inherited
  \<open>Object\<close> function, which is truthy, and \<open>getWorkItemType\<close> returns it.
\<close>

theorem getWorkItemType_inherited_label:
  "map_of labelMap (toLowerCase ''constructor'') = None
   \<and> match_prefixes (workItemTypeMapping getDefaultConfig) ''Refactor the parser'' = None
   \<and> getWorkItemType getDefaultConfig ''Refactor the parser'' [''constructor'']
       = Returns (Builtin ''constructor'')"
  by code_simp

section \<open>The update path\<close>

text \<open>
  Claim C8. The target already holds the title and the description computed from the issue;
  the patch document still carries a \<open>replace\<close> of the description, next to the history
  entry. With project information at hand the function throws before it builds the history
  entry.
\<close>

theorem updateWorkItem_description_not_diffed:
  "map_of (wi_fields item_42) ''System.Description'' = Some (body issue_7)
   \<and> updateWorkItem config_features (\<lambda>markdown. markdown) issue_7 item_42 None
       = Returns
           [Patch ''replace'' ''/fields/System.Description'' ''Steps'',
            Patch ''add'' ''/fields/System.History'' ''Issue updated on GitHub by ann'']
   \<and> updateWorkItem config_features (\<lambda>markdown. markdown) issue_7 item_42
         (Some \<lparr>pi_projectName = ''siwar'', pi_projectNumber = 31\<rparr>)
       = Throws ReferenceError"
  by (simp add: updateWorkItem_def config_features_def issue_7_def item_42_def show_int_def)

lemma updateWorkItem_title_diffed:
  assumes "updateWorkItem config makeHtml v workItem projectInfo = Returns patchDocument"
  shows "(Patch ''replace'' ''/fields/System.Title'' t \<in> set patchDocument) =
           (syncTitle config
            \<and> t = title v @ '' (GitHub Issue #'' @ show_int (number v) @ '')''
            \<and> map_of (wi_fields workItem) ''System.Title'' \<noteq> Some t)"
  using assms by (auto simp: updateWorkItem_def Let_def split: if_splits)

lemma updateWorkItem_history:
  assumes "updateWorkItem config makeHtml v workItem projectInfo = Returns patchDocument"
  shows "filter (\<lambda>p. case p of Patch opn pth val \<Rightarrow> pth = ''/fields/System.History'') patchDocument
           = [Patch ''add'' ''/fields/System.History'' (''Issue updated on GitHub by '' @ user v)]"
  using assms by (auto simp: updateWorkItem_def Let_def split: if_splits)

section \<open>Identity\<close>

text \<open>
  Claim C1. In the bulk workflow a first call whose lookup finds nothing creates work item 42.
  A second call for the same issue whose WIQL query is rejected gets the error sentinel from
  \<open>find\<close> and creates again (work item 43), where a second call whose lookup succeeds
  updates work item 42. The single-issue workflow makes no call on the error sentinel.
\<close>

theorem bulk_lookup_error_creates:
  "bulk_issue getDefaultConfig config_features (\<lambda>markdown. markdown) issue_7 None
        (find_work_item True (Resolves []) (\<lambda>i. Rejects)) (Resolves item_42)
       = ([Create_work_item (Returns (Str ''Product Backlog Item'')), Update_issue_body 42], True)
   \<and> find_work_item True Rejects (\<lambda>i. Resolves item_42) = Lookup_error
   \<and> bulk_issue getDefaultConfig config_features (\<lambda>markdown. markdown) issue_7 None
        (find_work_item True Rejects (\<lambda>i. Resolves item_42)) (Resolves item_43)
       = ([Create_work_item (Returns (Str ''Product Backlog Item'')), Update_issue_body 43], True)
   \<and> bulk_issue getDefaultConfig config_features (\<lambda>markdown. markdown) issue_7 None
        (find_work_item True (Resolves [42]) (\<lambda>i. Resolves item_42)) (Resolves item_43)
       = ([Update_work_item 42
             [Patch ''replace'' ''/fields/System.Description'' ''Steps'',
              Patch ''add'' ''/fields/System.History'' ''Issue updated on GitHub by ann'']],
          True)
   \<and> single_issue getDefaultConfig issue_7 None
        (find_work_item True Rejects (\<lambda>i. Resolves item_42)) (Resolves item_43) = []"
  by code_simp

section \<open>The iteration cache\<close>

lemma initialize_connected: "connection c \<Longrightarrow> initialize (c, w) = (Returns (), c, w)"
  by (simp add: initialize_def)

lemma initialize_Returns:
  assumes "initialize (c, w) = (Returns u, c0, w0)"
  shows "connection c0 \<and> existingIterations c0 = existingIterations c
         \<and> cacheLoaded c0 = cacheLoaded c \<and> posts w0 = posts w"
  using assms by (auto simp: initialize_def send_def posts_def split: if_splits)

lemma cache_all_keeps: "m k \<noteq> None \<Longrightarrow> cache_all its m k \<noteq> None"
  unfolding cache_all_def by (induction its arbitrary: m) auto

lemma cache_all_keeps_Some: "m k = Some v \<Longrightarrow> \<exists>v'. cache_all its m k = Some v'"
  using cache_all_keeps [of m k its] by auto

text \<open>A lazy load on a connected creator returns, keeps what is cached and creates nothing.\<close>

lemma load_connected:
  assumes "connection c"
  shows "\<exists>c' w'. loadExistingIterations (c, w) = (Returns (), c', w')
           \<and> connection c' \<and> workClient c' = workClient c
           \<and> (existingIterations c k \<noteq> None \<longrightarrow> existingIterations c' k \<noteq> None)
           \<and> posts w' = posts w
           \<and> (cacheLoaded c \<longrightarrow> c' = c \<and> w' = w)"
  using assms
  by (auto simp: loadExistingIterations_def initialize_connected send_def posts_def
      cache_all_keeps_Some split: option.splits)

lemma load_loaded:
  "cacheLoaded c \<Longrightarrow> loadExistingIterations (c, w) = (Returns (), c, w)"
  by (simp add: loadExistingIterations_def)

lemma load_Returns:
  assumes "loadExistingIterations (c, w) = (Returns u, c', w')" and "connection c"
  shows "connection c' \<and> workClient c' = workClient c
         \<and> (cacheLoaded c \<longrightarrow> c' = c \<and> w' = w) \<and> posts w' = posts w"
  using load_connected [OF assms(2), of w] assms(1) by auto

lemma iterationExists_Returns:
  assumes "iterationExists name (c, w) = (Returns b, c', w')" and "connection c"
  shows "connection c' \<and> workClient c' = workClient c
         \<and> b = (existingIterations c' (toLowerCase name) \<noteq> None)
         \<and> (cacheLoaded c \<longrightarrow> c' = c \<and> w' = w) \<and> posts w' = posts w"
proof -
  obtain c1 w1 where l: "loadExistingIterations (c, w) = (Returns (), c1, w1)"
    using load_connected [OF assms(2)] by blast
  with assms(1) have "c' = c1" "w' = w1" "b = (existingIterations c1 (toLowerCase name) \<noteq> None)"
    by (auto simp: iterationExists_def)
  with load_Returns [OF l assms(2)] show ?thesis by simp
qed

text \<open>A cached name on a connected creator: the existence check and the read both succeed.\<close>

lemma cached_lookup:
  assumes "connection c" and "existingIterations c (toLowerCase name) \<noteq> None"
  shows "\<exists>c' w' it'. iterationExists name (c, w) = (Returns True, c', w')
           \<and> connection c' \<and> existingIterations c' (toLowerCase name) = Some it'
           \<and> posts w' = posts w \<and> (cacheLoaded c \<longrightarrow> c' = c \<and> w' = w)"
proof -
  obtain c1 w1 where l: "loadExistingIterations (c, w) = (Returns (), c1, w1)"
    and k: "connection c1" "existingIterations c1 (toLowerCase name) \<noteq> None"
      "posts w1 = posts w" "cacheLoaded c \<longrightarrow> c1 = c \<and> w1 = w"
    using load_connected [OF assms(1), where k = "toLowerCase name" and w = w] assms(2) by blast
  from k(2) obtain it' where "existingIterations c1 (toLowerCase name) = Some it'"
    by blast
  with l k show ?thesis
    by (simp add: iterationExists_def)
qed

lemma cached_read:
  assumes "connection c" and "existingIterations c (toLowerCase name) \<noteq> None"
  shows "\<exists>c' w' it'. getIteration name (c, w) = (Returns (Some it'), c', w')
           \<and> connection c' \<and> existingIterations c' (toLowerCase name) = Some it'
           \<and> posts w' = posts w \<and> (cacheLoaded c \<longrightarrow> c' = c \<and> w' = w)"
proof -
  obtain c1 w1 where l: "loadExistingIterations (c, w) = (Returns (), c1, w1)"
    and k: "connection c1" "existingIterations c1 (toLowerCase name) \<noteq> None"
      "posts w1 = posts w" "cacheLoaded c \<longrightarrow> c1 = c \<and> w1 = w"
    using load_connected [OF assms(1), where k = "toLowerCase name" and w = w] assms(2) by blast
  from k(2) obtain it' where "existingIterations c1 (toLowerCase name) = Some it'"
    by blast
  with l k show ?thesis
    by (simp add: getIteration_def)
qed

text \<open>On a connected creator that caches the name, \<open>createIteration\<close> creates nothing.\<close>

lemma createIteration_cached:
  assumes "connection c" and "existingIterations c (toLowerCase name) = Some it"
  shows "\<exists>c2 w2 it2. createIteration name sd ed p (c, w) = (Returns (Some it2), c2, w2)
           \<and> existingIterations c2 (toLowerCase name) = Some it2
           \<and> posts w2 = posts w
           \<and> (cacheLoaded c \<longrightarrow> c2 = c \<and> w2 = w \<and> it2 = it)"
proof -
  from assms(2) have ne: "existingIterations c (toLowerCase name) \<noteq> None"
    by simp
  obtain c1 w1 it1 where e: "iterationExists name (c, w) = (Returns True, c1, w1)"
    and k1: "connection c1" "existingIterations c1 (toLowerCase name) = Some it1"
      "posts w1 = posts w" "cacheLoaded c \<longrightarrow> c1 = c \<and> w1 = w"
    using cached_lookup [OF assms(1) ne, of w] by blast
  from k1(2) have ne1: "existingIterations c1 (toLowerCase name) \<noteq> None"
    by simp
  obtain c2 w2 it2 where g: "getIteration name (c1, w1) = (Returns (Some it2), c2, w2)"
    and k2: "existingIterations c2 (toLowerCase name) = Some it2"
      "posts w2 = posts w1" "cacheLoaded c1 \<longrightarrow> c2 = c1 \<and> w2 = w1"
    using cached_read [OF k1(1) ne1, of w1] by blast
  have "createIteration name sd ed p (c, w) = (Returns (Some it2), c2, w2)"
    using e g by (simp add: createIteration_def initialize_connected [OF assms(1)])
  moreover have "cacheLoaded c \<longrightarrow> c2 = c \<and> w2 = w \<and> it2 = it"
    using k1 k2 assms(2) by auto
  ultimately show ?thesis
    using k1 k2 by auto
qed

text \<open>What a call that returns an iteration leaves behind.\<close>

lemma post_iteration_Some:
  assumes "post_iteration name sd ed p (c, w) = (Returns (Some it), c', w')"
  shows "existingIterations c' (toLowerCase name) = Some it \<and> connection c' = connection c"
  using assms by (auto simp: post_iteration_def split: if_splits option.splits)

lemma getIteration_Some:
  assumes "getIteration name (c, w) = (Returns (Some it), c', w')" and "connection c"
  shows "existingIterations c' (toLowerCase name) = Some it \<and> connection c'"
proof -
  obtain c1 w1 where l: "loadExistingIterations (c, w) = (Returns (), c1, w1)"
    using load_connected [OF assms(2)] by blast
  with assms(1) have "c' = c1" "existingIterations c1 (toLowerCase name) = Some it"
    by (auto simp: getIteration_def)
  with load_Returns [OF l assms(2)] show ?thesis by simp
qed

lemma createIteration_Some:
  assumes "createIteration name sd ed p (c, w) = (Returns (Some it), c1, w1)"
  shows "connection c1 \<and> existingIterations c1 (toLowerCase name) = Some it"
proof -
  obtain r0 c0 w0 where i: "initialize (c, w) = (r0, c0, w0)"
    by (metis prod_cases3)
  with assms obtain u where r0: "r0 = Returns u"
    by (cases r0) (auto simp: createIteration_def)
  have c0: "connection c0"
    using initialize_Returns i r0 by blast
  obtain r1 c' w' where e: "iterationExists name (c0, w0) = (r1, c', w')"
    by (metis prod_cases3)
  with assms i r0 obtain b where r1: "r1 = Returns b"
    by (cases r1) (auto simp: createIteration_def)
  have c': "connection c'"
    using iterationExists_Returns e r1 c0 by blast
  show ?thesis
  proof (cases b)
    case True
    with assms i r0 e r1 have "getIteration name (c', w') = (Returns (Some it), c1, w1)"
      by (simp add: createIteration_def)
    then show ?thesis
      using getIteration_Some c' by blast
  next
    case False
    with assms i r0 e r1 have "post_iteration name sd ed p (c', w') = (Returns (Some it), c1, w1)"
      by (simp add: createIteration_def)
    then show ?thesis
      using post_iteration_Some c' by blast
  qed
qed

lemma createFromSprintInfo_Some:
  assumes "createFromSprintInfo pd today (Some info) d (c, w) = (Returns (Some it), c1, w1)"
  shows "connection c1 \<and> existingIterations c1 (toLowerCase (sprint_name info)) = Some it"
proof -
  have ne: "sprint_name info \<noteq> []"
    using assms by (auto simp: createFromSprintInfo_def split: if_splits)
  obtain sd ed where "sprint_interval pd today info d = (sd, ed)"
    by (metis surj_pair)
  with assms ne have "createIteration (sprint_name info) sd ed None (c, w)
                        = (Returns (Some it), c1, w1)"
    by (simp add: createFromSprintInfo_def)
  then show ?thesis
    by (rule createIteration_Some)
qed

lemma createFromSprintInfo_cached:
  assumes "connection c" and "existingIterations c (toLowerCase (sprint_name info)) = Some it"
    and "sprint_name info \<noteq> []"
  shows "\<exists>c2 w2 it2. createFromSprintInfo pd today (Some info) d (c, w)
                       = (Returns (Some it2), c2, w2)
           \<and> existingIterations c2 (toLowerCase (sprint_name info)) = Some it2
           \<and> posts w2 = posts w
           \<and> (cacheLoaded c \<longrightarrow> c2 = c \<and> w2 = w \<and> it2 = it)"
proof -
  obtain sd ed where s: "sprint_interval pd today info d = (sd, ed)"
    by (metis surj_pair)
  show ?thesis
    using createIteration_cached [OF assms(1) assms(2), of sd ed None w] s assms(3)
    by (simp add: createFromSprintInfo_def)
qed

text \<open>
  Claim C7, as amended. When a call of \<open>createFromSprintInfo\<close> returns an iteration, the
  cache holds that iteration under the lowercased sprint name, and a second call with the
  same name (whatever its dates, the day and the default duration) returns an iteration,
  namely the entry the cache then holds under that key, and sends no create request. When
  the cache has been loaded, the second call returns the first call's iteration and changes
  neither the cache nor the request log.
\<close>

theorem createFromSprintInfo_idempotent:
  assumes "createFromSprintInfo pd today (Some info) d (c, w) = (Returns (Some it), c1, w1)"
    and "sprint_name info' = sprint_name info"
  shows "existingIterations c1 (toLowerCase (sprint_name info)) = Some it
         \<and> (\<exists>c2 w2 it2.
               createFromSprintInfo pd' today' (Some info') d' (c1, w1)
                 = (Returns (Some it2), c2, w2)
               \<and> existingIterations c2 (toLowerCase (sprint_name info)) = Some it2
               \<and> posts w2 = posts w1
               \<and> (cacheLoaded c1 \<longrightarrow> c2 = c1 \<and> w2 = w1 \<and> it2 = it))"
proof -
  have ne: "sprint_name info \<noteq> []"
    using assms(1) by (auto simp: createFromSprintInfo_def split: if_splits)
  have k: "connection c1" "existingIterations c1 (toLowerCase (sprint_name info)) = Some it"
    using createFromSprintInfo_Some [OF assms(1)] by simp_all
  show ?thesis
    using createFromSprintInfo_cached [of c1 info' it pd' today' d' w1] k ne assms(2)
    by simp
qed

theorem createFromSprintInfo_idempotent_witness:
  "fst (createFromSprintInfo (\<lambda>s. Invalid_Date) 19723 (Some sprint_2_info) 14
          (fresh_creator, accepting_world)) = Returns (Some sprint_2)
   \<and> createFromSprintInfo (\<lambda>s. Invalid_Date) 19730 (Some sprint_2_info) 7
        (snd (createFromSprintInfo (\<lambda>s. Invalid_Date) 19723 (Some sprint_2_info) 14
                (fresh_creator, accepting_world)))
       = (Returns (Some sprint_2),
          snd (createFromSprintInfo (\<lambda>s. Invalid_Date) 19723 (Some sprint_2_info) 14
                 (fresh_creator, accepting_world)))"
proof -
  define first where
    "first = createFromSprintInfo (\<lambda>s. Invalid_Date) 19723 (Some sprint_2_info) 14
               (fresh_creator, accepting_world)"
  have r: "fst first = Returns (Some sprint_2)"
    unfolding first_def by code_simp
  have l: "cacheLoaded (fst (snd first))"
    unfolding first_def by code_simp
  have f: "createFromSprintInfo (\<lambda>s. Invalid_Date) 19723 (Some sprint_2_info) 14
             (fresh_creator, accepting_world)
           = (Returns (Some sprint_2), fst (snd first), snd (snd first))"
    using r by (simp add: first_def [symmetric] prod_eq_iff)
  have "createFromSprintInfo (\<lambda>s. Invalid_Date) 19730 (Some sprint_2_info) 7
          (fst (snd first), snd (snd first))
        = (Returns (Some sprint_2), fst (snd first), snd (snd first))"
    using createFromSprintInfo_idempotent [OF f refl, of "\<lambda>s. Invalid_Date" 19730 7] l
    by auto
  with r show ?thesis
    by (simp add: first_def [symmetric])
qed

text \<open>
  Claim C7 fails as stated when the store rejects the creation: both calls return null, the
  cache has no entry under the name after the second call, and two create requests were sent.
\<close>

theorem createFromSprintInfo_idempotent_counterexample:
  "fst (createFromSprintInfo (\<lambda>s. Invalid_Date) 19723 (Some sprint_2_info) 14
          (fresh_creator, rejecting_world)) = Returns None
   \<and> fst (createFromSprintInfo (\<lambda>s. Invalid_Date) 19723 (Some sprint_2_info) 14
          (snd (createFromSprintInfo (\<lambda>s. Invalid_Date) 19723 (Some sprint_2_info) 14
                  (fresh_creator, rejecting_world)))) = Returns None
   \<and> existingIterations
        (fst (snd (createFromSprintInfo (\<lambda>s. Invalid_Date) 19723 (Some sprint_2_info) 14
          (snd (createFromSprintInfo (\<lambda>s. Invalid_Date) 19723 (Some sprint_2_info) 14
                  (fresh_creator, rejecting_world))))))
        (toLowerCase ''Sprint 2'') = None
   \<and> length (posts
        (snd (snd (createFromSprintInfo (\<lambda>s. Invalid_Date) 19723 (Some sprint_2_info) 14
          (snd (createFromSprintInfo (\<lambda>s. Invalid_Date) 19723 (Some sprint_2_info) 14
                  (fresh_creator, rejecting_world))))))) = 2"
  by code_simp

lemma createIteration_absent:
  assumes "initialize (c, w) = (Returns (), c0, w0)"
    and "iterationExists name (c0, w0) = (Returns False, c1, w1)"
  shows "createIteration name sd ed p (c, w) = post_iteration name sd ed p (c1, w1)"
  using assms by (simp add: createIteration_def)

lemma createIteration_retry:
  assumes "connection c" and "cacheLoaded c" and "existingIterations c (toLowerCase name) = None"
  shows "createIteration name sd ed p (c, w) = post_iteration name sd ed p (c, w)"
  using assms
  by (simp add: createIteration_def initialize_connected iterationExists_def load_loaded)

text \<open>
  Claim C10, as amended. Let \<open>createIteration\<close> connect and let its existence check,
  which loads the existing iterations on first use, find no entry for the name. The cache
  has then no entry for the name, and it is the cache of before the call if that one had been
  loaded. If the create call fails (the client is null or the store rejects the post), the
  result is null and the creator is exactly as the existence check left it; with the cache
  loaded, a later call with the same name goes to the create call again. If the store
  answers with an iteration, that one is returned and entered under the lowercased name: the
  name gets its entry only then.
\<close>

theorem createIteration_failure:
  assumes "initialize (c, w) = (Returns (), c0, w0)"
    and "iterationExists name (c0, w0) = (Returns False, c1, w1)"
  shows "existingIterations c1 (toLowerCase name) = None
         \<and> (cacheLoaded c \<longrightarrow> existingIterations c1 = existingIterations c)
         \<and> (workClient c1 = False \<or> creation w1 (length (requests w1)) = None \<longrightarrow>
              (\<exists>w2. createIteration name sd ed p (c, w) = (Returns None, c1, w2)
                    \<and> (cacheLoaded c1 \<longrightarrow>
                         createIteration name sd' ed' p' (c1, w2)
                           = post_iteration name sd' ed' p' (c1, w2))))
         \<and> (\<forall>created. workClient c1 \<and> creation w1 (length (requests w1)) = Some created \<longrightarrow>
              (\<exists>w2. createIteration name sd ed p (c, w)
                       = (Returns (Some created),
                          c1\<lparr>existingIterations :=
                               (existingIterations c1)(toLowerCase name \<mapsto> created)\<rparr>,
                          w2)))"
proof -
  have k0: "connection c0" "existingIterations c0 = existingIterations c"
    "cacheLoaded c0 = cacheLoaded c"
    using initialize_Returns [OF assms(1)] by simp_all
  have k1: "connection c1" "existingIterations c1 (toLowerCase name) = None"
    "cacheLoaded c0 \<longrightarrow> c1 = c0"
    using iterationExists_Returns [OF assms(2) k0(1)] by simp_all
  have p: "createIteration name sd ed p (c, w) = post_iteration name sd ed p (c1, w1)"
    using assms by (rule createIteration_absent)
  have unchanged: "cacheLoaded c \<longrightarrow> existingIterations c1 = existingIterations c"
    using k0 k1 by auto
  have fails: "\<exists>w2. createIteration name sd ed p (c, w) = (Returns None, c1, w2)
                 \<and> (cacheLoaded c1 \<longrightarrow>
                      createIteration name sd' ed' p' (c1, w2)
                        = post_iteration name sd' ed' p' (c1, w2))"
    if failing: "workClient c1 = False \<or> creation w1 (length (requests w1)) = None"
  proof -
    have "\<exists>w2. post_iteration name sd ed p (c1, w1) = (Returns None, c1, w2)"
      using failing by (cases "workClient c1") (auto simp: post_iteration_def)
    then show ?thesis
      using p createIteration_retry [OF k1(1) _ k1(2)] by auto
  qed
  have succeeds: "\<exists>w2. createIteration name sd ed p (c, w)
                         = (Returns (Some created),
                            c1\<lparr>existingIterations :=
                                 (existingIterations c1)(toLowerCase name \<mapsto> created)\<rparr>,
                            w2)"
    if "workClient c1 \<and> creation w1 (length (requests w1)) = Some created" for created
    using that p by (simp add: post_iteration_def)
  show ?thesis
    using k1(2) unchanged fails succeeds by blast
qed

theorem createIteration_failure_witness:
  "fst (initialize (fresh_creator, rejecting_world)) = Returns ()
   \<and> fst (iterationExists ''Sprint 2'' (snd (initialize (fresh_creator, rejecting_world))))
       = Returns False
   \<and> fst (createIteration ''Sprint 2'' None None None (fresh_creator, rejecting_world))
       = Returns None
   \<and> fst (snd (createIteration ''Sprint 2'' None None None (fresh_creator, rejecting_world)))
       = fst (snd (iterationExists ''Sprint 2''
                     (snd (initialize (fresh_creator, rejecting_world)))))"
proof -
  define st0 where "st0 = snd (initialize (fresh_creator, rejecting_world))"
  define st1 where "st1 = snd (iterationExists ''Sprint 2'' st0)"
  have i: "fst (initialize (fresh_creator, rejecting_world)) = Returns ()"
    by code_simp
  have e: "fst (iterationExists ''Sprint 2'' st0) = Returns False"
    unfolding st0_def by code_simp
  have n: "creation (snd st1) (length (requests (snd st1))) = None"
    unfolding st1_def st0_def by code_simp
  have i': "initialize (fresh_creator, rejecting_world) = (Returns (), fst st0, snd st0)"
    using i by (simp add: st0_def prod_eq_iff)
  have e': "iterationExists ''Sprint 2'' (fst st0, snd st0) = (Returns False, fst st1, snd st1)"
    using e by (simp add: st1_def prod_eq_iff)
  obtain w2 where
    "createIteration ''Sprint 2'' None None None (fresh_creator, rejecting_world)
       = (Returns None, fst st1, w2)"
    using createIteration_failure [OF i' e', of None None None] n by blast
  with i e show ?thesis
    by (simp add: st0_def st1_def)
qed

text \<open>
  Claim C10 fails as stated when the failing call is the first use of the cache: the store
  lists \<open>Sprint 1\<close> and rejects the creation of \<open>Sprint 2\<close>; the call returns null, and
  the cache, empty before, now holds \<open>Sprint 1\<close>.
\<close>

theorem createIteration_failure_counterexample:
  "fst (createIteration ''Sprint 2'' None None None (fresh_creator, rejecting_world))
     = Returns None
   \<and> existingIterations fresh_creator ''sprint 2'' = None
   \<and> existingIterations fresh_creator ''sprint 1'' = None
   \<and> existingIterations
        (fst (snd (createIteration ''Sprint 2'' None None None
                     (fresh_creator, rejecting_world)))) ''sprint 1'' = Some sprint_1"
  by code_simp

end
